theory Spec2Isabelle
  imports Main
begin

section \<open>JavaScript primitives used by the time parser\<close>

text \<open>
  The program is TypeScript. Its numbers are modelled as mathematical integers
  (\<^typ>\<open>int\<close>): every number the parser handles is an integer, and integer arithmetic on
  JavaScript numbers is exact up to \<open>2^53\<close>. Its strings are modelled as \<^typ>\<open>string\<close>,
  lists of 8-bit characters read as the code points below 256. A \<open>Date\<close> is its time value,
  the milliseconds since the epoch.
\<close>

subsection \<open>Characters and strings\<close>

text \<open>The regular expression class \<open>\d\<close>: the ASCII digits.\<close>

definition isDigit :: "char \<Rightarrow> bool" where
  "isDigit c = (48 \<le> (of_char c :: nat) \<and> (of_char c :: nat) \<le> 57)"

text \<open>
  The regular expression class \<open>\s\<close>, which is also what \<open>String.prototype.trim\<close>
  strips: tab, line feed, vertical tab, form feed, carriage return, space and the
  no-break space.
\<close>

definition isWhiteSpace :: "char \<Rightarrow> bool" where
  "isWhiteSpace c = ((of_char c :: nat) \<in> {9, 10, 11, 12, 13, 32, 160})"

text \<open>
  \<open>String.prototype.toLowerCase\<close> on one character: \<open>A\<close>..\<open>Z\<close> and the upper-case
  letters of Latin-1 (\<open>0xC0\<close>..\<open>0xDE\<close> without the multiplication sign \<open>0xD7\<close>) move up
  by 32.
\<close>

definition toLowerChar :: "char \<Rightarrow> char" where
  "toLowerChar c =
     (let n = (of_char c :: nat)
      in if (65 \<le> n \<and> n \<le> 90) \<or> (192 \<le> n \<and> n \<le> 222 \<and> n \<noteq> 215)
         then char_of (n + 32) else c)"

definition toLowerCase :: "string \<Rightarrow> string" where
  "toLowerCase s = map toLowerChar s"

definition trim :: "string \<Rightarrow> string" where
  "trim s = rev (dropWhile isWhiteSpace (rev (dropWhile isWhiteSpace s)))"

text \<open>\<open>a.includes(b)\<close>: \<open>b\<close> occurs in \<open>a\<close> as a contiguous substring.\<close>

fun startsWith :: "string \<Rightarrow> string \<Rightarrow> bool" where
  "startsWith s [] = True"
| "startsWith [] (p # ps) = False"
| "startsWith (c # cs) (p # ps) = (c = p \<and> startsWith cs ps)"

fun includes_str :: "string \<Rightarrow> string \<Rightarrow> bool" where
  "includes_str [] sub = (sub = [])"
| "includes_str (c # cs) sub = (startsWith (c # cs) sub \<or> includes_str cs sub)"

subsection \<open>Numbers and their decimal form\<close>

definition digitVal :: "char \<Rightarrow> int" where
  "digitVal c = int (of_char c) - 48"

text \<open>The character of a decimal digit \<open>d < 10\<close>.\<close>

definition digitChar :: "nat \<Rightarrow> char" where
  "digitChar d =
     (if d = 0 then CHR ''0'' else if d = 1 then CHR ''1'' else if d = 2 then CHR ''2''
      else if d = 3 then CHR ''3'' else if d = 4 then CHR ''4'' else if d = 5 then CHR ''5''
      else if d = 6 then CHR ''6'' else if d = 7 then CHR ''7'' else if d = 8 then CHR ''8''
      else CHR ''9'')"

text \<open>
  \<open>parseInt(s, 10)\<close> on a string that starts with a digit: the value of its longest
  prefix of digits. Every call in the parser passes a capture of \<open>\d+\<close>, so the \<open>NaN\<close>
  result for a string without a leading digit does not arise.
\<close>

definition parseInt10 :: "string \<Rightarrow> int" where
  "parseInt10 s = foldl (\<lambda>acc c. 10 * acc + digitVal c) 0 (takeWhile isDigit s)"

function decimal :: "nat \<Rightarrow> string" where
  "decimal n = (if n < 10 then [digitChar n] else decimal (n div 10) @ [digitChar (n mod 10)])"
  by pat_completeness auto
termination
  by (relation "measure id") auto

declare decimal.simps [simp del]

text \<open>The template literal \<open>`${n}`\<close> of an integer \<open>n\<close>.\<close>

definition numberToString :: "int \<Rightarrow> string" where
  "numberToString n = (if n < 0 then CHR ''-'' # decimal (nat (- n)) else decimal (nat n))"

section \<open>Delay formatting and validation\<close>

text \<open>\<open>TimeParser.formatDelay\<close>; \<open>Math.floor(a / b)\<close> on integers is \<open>a div b\<close>.\<close>

definition formatDelay :: "int \<Rightarrow> string" where
  "formatDelay delayMs =
     (if delayMs < 1000 then numberToString delayMs @ ''ms''
      else let seconds = delayMs div 1000 in
        if seconds < 60 then numberToString seconds @ ''s''
        else let minutes = seconds div 60 in
          if minutes < 60 then
            (let remainingSeconds = seconds mod 60 in
             if remainingSeconds > 0
             then numberToString minutes @ ''m '' @ numberToString remainingSeconds @ ''s''
             else numberToString minutes @ ''m'')
          else let hours = minutes div 60 in
            if hours < 24 then
              (let remainingMinutes = minutes mod 60 in
               if remainingMinutes > 0
               then numberToString hours @ ''h '' @ numberToString remainingMinutes @ ''m''
               else numberToString hours @ ''h'')
            else let days = hours div 24; remainingHours = hours mod 24 in
              if remainingHours > 0
              then numberToString days @ ''d '' @ numberToString remainingHours @ ''h''
              else numberToString days @ ''d'')"

text \<open>The result object \<open>{ isValid: boolean; error?: string }\<close> of \<open>validateDelay\<close>.\<close>

record DelayValidation =
  isValid' :: bool
  error' :: "string option"

text \<open>
  \<open>TimeParser.validateDelay(delayMs, maxDays = 30)\<close>; an omitted second argument is
  \<open>None\<close>.
\<close>

definition validateDelay :: "int \<Rightarrow> int option \<Rightarrow> DelayValidation" where
  "validateDelay delayMs maxDaysArg =
     (let maxDays = (case maxDaysArg of None \<Rightarrow> 30 | Some d \<Rightarrow> d);
          maxMs = maxDays * 24 * 60 * 60 * 1000
      in if delayMs \<le> 0
         then \<lparr>isValid' = False, error' = Some ''Delay must be greater than 0''\<rparr>
         else if delayMs > maxMs
         then \<lparr>isValid' = False,
               error' = Some (''Delay cannot exceed '' @ numberToString maxDays @ '' days'')\<rparr>
         else \<lparr>isValid' = True, error' = None\<rparr>)"

section \<open>Dates\<close>

text \<open>
  A \<open>Date\<close> is its time value in milliseconds since the epoch. The clock of one call is a
  record: \<open>now\<close> is what \<open>new Date()\<close> and \<open>Date.now()\<close> return during the call, and
  \<open>tza\<close> is the offset of local time from UTC in milliseconds, taken as fixed (a zone
  without daylight-saving changes). The functions follow the time-value algorithms of the
  ECMAScript specification and keep its names.
\<close>

record clock =
  now :: int
  tza :: int

definition msPerDay :: int where
  "msPerDay = 86400000"

definition Day :: "int \<Rightarrow> int" where
  "Day t = t div msPerDay"

definition TimeWithinDay :: "int \<Rightarrow> int" where
  "TimeWithinDay t = t mod msPerDay"

definition LocalTime :: "clock \<Rightarrow> int \<Rightarrow> int" where
  "LocalTime c t = t + tza c"

definition UTC :: "clock \<Rightarrow> int \<Rightarrow> int" where
  "UTC c t = t - tza c"

definition MakeTime :: "int \<Rightarrow> int \<Rightarrow> int \<Rightarrow> int \<Rightarrow> int" where
  "MakeTime hour minute sec ms = hour * 3600000 + minute * 60000 + sec * 1000 + ms"

definition MakeDate :: "int \<Rightarrow> int \<Rightarrow> int" where
  "MakeDate day time = day * msPerDay + time"

definition DayFromYear :: "int \<Rightarrow> int" where
  "DayFromYear y =
     365 * (y - 1970) + (y - 1969) div 4 - (y - 1901) div 100 + (y - 1601) div 400"

definition InLeapYear :: "int \<Rightarrow> bool" where
  "InLeapYear y = ((y mod 4 = 0 \<and> y mod 100 \<noteq> 0) \<or> y mod 400 = 0)"

text \<open>The number of days of a year that precede its month \<open>m\<close> (\<open>0\<close> is January).\<close>

definition DaysBeforeMonth :: "int \<Rightarrow> bool \<Rightarrow> int" where
  "DaysBeforeMonth m leap =
     (if m = 0 then 0 else if m = 1 then 31
      else (if leap then 1 else 0) +
        (if m = 2 then 59 else if m = 3 then 90 else if m = 4 then 120
         else if m = 5 then 151 else if m = 6 then 181 else if m = 7 then 212
         else if m = 8 then 243 else if m = 9 then 273 else if m = 10 then 304
         else 334))"

text \<open>
  \<open>MakeDay\<close>: a month outside \<open>0..11\<close> carries into the year, and a day of the month
  outside the month carries into the following or preceding days.
\<close>

definition MakeDay :: "int \<Rightarrow> int \<Rightarrow> int \<Rightarrow> int" where
  "MakeDay year month date =
     (let ym = year + month div 12; mn = month mod 12
      in DayFromYear ym + DaysBeforeMonth mn (InLeapYear ym) + date - 1)"

text \<open>\<open>TimeClip\<close>: a time value beyond the range of \<open>Date\<close> is \<open>NaN\<close>, here \<open>None\<close>.\<close>

definition TimeClip :: "int \<Rightarrow> int option" where
  "TimeClip t = (if \<bar>t\<bar> > 8640000000000000 then None else Some t)"

text \<open>
  \<open>new Date(year, month, day, hours, minutes, 0, 0)\<close>, in local time; a year from 0 to 99
  stands for 1900 to 1999.
\<close>

definition Date_new :: "clock \<Rightarrow> int \<Rightarrow> int \<Rightarrow> int \<Rightarrow> int \<Rightarrow> int \<Rightarrow> int option" where
  "Date_new c year month day hours minutes =
     (let yr = (if 0 \<le> year \<and> year \<le> 99 then 1900 + year else year)
      in TimeClip (UTC c (MakeDate (MakeDay yr month day) (MakeTime hours minutes 0 0))))"

text \<open>\<open>d.setHours(hour, minute, 0, 0)\<close>: the same local day, at the given clock time.\<close>

definition setHours :: "clock \<Rightarrow> int \<Rightarrow> int \<Rightarrow> int \<Rightarrow> int" where
  "setHours c t hour minute =
     UTC c (MakeDate (Day (LocalTime c t)) (MakeTime hour minute 0 0))"

text \<open>
  \<open>d.setDate(d.getDate() + 1)\<close>: the next local day, at the same clock time
  (\<open>MakeDay\<close> is linear in the day of the month).
\<close>

definition setDate_next :: "clock \<Rightarrow> int \<Rightarrow> int" where
  "setDate_next c t =
     UTC c (MakeDate (Day (LocalTime c t) + 1) (TimeWithinDay (LocalTime c t)))"

section \<open>The time parser\<close>

record TimeParseResult =
  isValid :: bool
  delayMs :: int
  timestamp :: int
  error :: "string option"
  originalInput :: string

subsection \<open>The four regular expressions\<close>

text \<open>
  Each matcher returns the capture groups of a match, or \<open>None\<close>. All four patterns are
  anchored at both ends.
\<close>

text \<open>\<open>RELATIVE_TIME_REGEX = /^(\d+)([smhdw])$/i\<close>\<close>

definition RELATIVE_TIME_REGEX :: "string \<Rightarrow> (string \<times> string) option" where
  "RELATIVE_TIME_REGEX s =
     (let ds = takeWhile isDigit s
      in case dropWhile isDigit s of
           [u] \<Rightarrow> if ds \<noteq> [] \<and> u \<in> set ''smhdwSMHDW'' then Some (ds, [u]) else None
         | _ \<Rightarrow> None)"

text \<open>The common tail \<open>(?:\s*(am|pm))?$\<close> of the two clock patterns.\<close>

definition period_tail :: "string \<Rightarrow> string option option" where
  "period_tail r =
     (if r = [] then Some None
      else let p = dropWhile isWhiteSpace r
           in if toLowerCase p = ''am'' \<or> toLowerCase p = ''pm'' then Some (Some p) else None)"

text \<open>\<open>ABSOLUTE_TIME_REGEX = /^(\d{1,2}):(\d{2})(?:\s*(am|pm))?$/i\<close>\<close>

definition ABSOLUTE_TIME_REGEX :: "string \<Rightarrow> (string \<times> string \<times> string option) option" where
  "ABSOLUTE_TIME_REGEX s =
     (let h = takeWhile isDigit s
      in if length h = 1 \<or> length h = 2 then
           (case dropWhile isDigit s of
              [] \<Rightarrow> None
            | c # r \<Rightarrow>
                if c = CHR '':'' \<and> length (take 2 r) = 2 \<and> list_all isDigit (take 2 r)
                then (case period_tail (drop 2 r) of
                        None \<Rightarrow> None
                      | Some p \<Rightarrow> Some (h, take 2 r, p))
                else None)
         else None)"

text \<open>
  \<open>DATE_TIME_REGEX = /^(\d{1,2})\/(\d{1,2})\/(\d{4})\s+(\d{1,2}):(\d{2})(?:\s*(am|pm))?$/i\<close>;
  after the white space it continues as \<open>ABSOLUTE_TIME_REGEX\<close> does.
\<close>

definition DATE_TIME_REGEX ::
  "string \<Rightarrow> (string \<times> string \<times> string \<times> string \<times> string \<times> string option) option" where
  "DATE_TIME_REGEX s =
     (let mo = takeWhile isDigit s
      in if length mo = 1 \<or> length mo = 2 then
           (case dropWhile isDigit s of
              [] \<Rightarrow> None
            | c1 # r1 \<Rightarrow>
                let d = takeWhile isDigit r1
                in if c1 = CHR ''/'' \<and> (length d = 1 \<or> length d = 2) then
                     (case dropWhile isDigit r1 of
                        [] \<Rightarrow> None
                      | c2 # r2 \<Rightarrow>
                          let y = take 4 r2; r3 = drop 4 r2
                          in if c2 = CHR ''/'' \<and> length y = 4 \<and> list_all isDigit y
                                \<and> takeWhile isWhiteSpace r3 \<noteq> []
                             then (case ABSOLUTE_TIME_REGEX (dropWhile isWhiteSpace r3) of
                                     None \<Rightarrow> None
                                   | Some (h, mi, p) \<Rightarrow> Some (mo, d, y, h, mi, p))
                             else None)
                   else None)
         else None)"

text \<open>\<open>UNIX_TIMESTAMP_REGEX = /^\d{10,13}$/\<close>, used through \<open>test\<close>.\<close>

definition UNIX_TIMESTAMP_REGEX :: "string \<Rightarrow> bool" where
  "UNIX_TIMESTAMP_REGEX s = (list_all isDigit s \<and> 10 \<le> length s \<and> length s \<le> 13)"

text \<open>\<open>/^(monday|tuesday|wednesday|thursday|friday|saturday|sunday)$/i\<close>\<close>

definition DAY_NAME_REGEX :: "string \<Rightarrow> bool" where
  "DAY_NAME_REGEX s =
     (toLowerCase s \<in> set [''monday'', ''tuesday'', ''wednesday'', ''thursday'', ''friday'',
        ''saturday'', ''sunday''])"

subsection \<open>The result objects\<close>

text \<open>
  The three shapes of object literal that the parsers return: no match (no \<open>error\<close>
  field), a failure with its reason, and a success.
\<close>

definition noMatch :: "clock \<Rightarrow> string \<Rightarrow> TimeParseResult" where
  "noMatch c timeString =
     \<lparr>isValid = False, delayMs = 0, timestamp = now c, error = None,
      originalInput = timeString\<rparr>"

definition failure :: "clock \<Rightarrow> string \<Rightarrow> string \<Rightarrow> TimeParseResult" where
  "failure c reason timeString =
     \<lparr>isValid = False, delayMs = 0, timestamp = now c, error = Some reason,
      originalInput = timeString\<rparr>"

definition success :: "int \<Rightarrow> int \<Rightarrow> string \<Rightarrow> TimeParseResult" where
  "success delay target timeString =
     \<lparr>isValid = True, delayMs = delay, timestamp = target, error = None,
      originalInput = timeString\<rparr>"

subsection \<open>The format families\<close>

text \<open>The \<open>switch (unit)\<close> of \<open>parseRelativeTime\<close>; \<open>None\<close> is its \<open>default\<close> branch.\<close>

definition unitDelay :: "string \<Rightarrow> int \<Rightarrow> int option" where
  "unitDelay unit v =
     (if unit = ''s'' then Some (v * 1000)
      else if unit = ''m'' then Some (v * 60 * 1000)
      else if unit = ''h'' then Some (v * 60 * 60 * 1000)
      else if unit = ''d'' then Some (v * 24 * 60 * 60 * 1000)
      else if unit = ''w'' then Some (v * 7 * 24 * 60 * 60 * 1000)
      else None)"

definition parseRelativeTime :: "clock \<Rightarrow> string \<Rightarrow> TimeParseResult" where
  "parseRelativeTime c timeString =
     (case RELATIVE_TIME_REGEX timeString of
        None \<Rightarrow> noMatch c timeString
      | Some (g1, g2) \<Rightarrow>
          let v = parseInt10 g1; unit = toLowerCase g2
          in if v \<le> 0 then failure c ''Time value must be greater than 0'' timeString
             else (case unitDelay unit v of
                     None \<Rightarrow> failure c (''Unknown time unit: '' @ unit) timeString
                   | Some delay \<Rightarrow> success delay (now c + delay) timeString))"

text \<open>The 12-hour adjustment that \<open>parseAbsoluteTime\<close> and \<open>parseDateTime\<close> both make.\<close>

definition adjustHour :: "string option \<Rightarrow> int \<Rightarrow> int" where
  "adjustHour period hour =
     (if period = Some ''pm'' \<and> hour \<noteq> 12 then hour + 12
      else if period = Some ''am'' \<and> hour = 12 then 0
      else hour)"

definition parseAbsoluteTime :: "clock \<Rightarrow> string \<Rightarrow> TimeParseResult" where
  "parseAbsoluteTime c timeString =
     (case ABSOLUTE_TIME_REGEX timeString of
        None \<Rightarrow> noMatch c timeString
      | Some (g1, g2, g3) \<Rightarrow>
          let minute = parseInt10 g2;
              period = map_option toLowerCase g3;
              hour = adjustHour period (parseInt10 g1)
          in if hour < 0 \<or> hour > 23 \<or> minute < 0 \<or> minute > 59
             then failure c ''Invalid time values'' timeString
             else let today = setHours c (now c) hour minute;
                      targetTime = (if today \<le> now c then setDate_next c today else today)
                  in success (targetTime - now c) targetTime timeString)"

definition parseDateTime :: "clock \<Rightarrow> string \<Rightarrow> TimeParseResult" where
  "parseDateTime c timeString =
     (case DATE_TIME_REGEX timeString of
        None \<Rightarrow> noMatch c timeString
      | Some (g1, g2, g3, g4, g5, g6) \<Rightarrow>
          let month = parseInt10 g1 - 1;
              day = parseInt10 g2;
              year = parseInt10 g3;
              minute = parseInt10 g5;
              period = map_option toLowerCase g6;
              hour = adjustHour period (parseInt10 g4)
          in (case Date_new c year month day hour minute of
                None \<Rightarrow> failure c ''Invalid date'' timeString
              | Some targetTime \<Rightarrow>
                  if targetTime \<le> now c then failure c ''Date is in the past'' timeString
                  else success (targetTime - now c) targetTime timeString))"

text \<open>
  \<open>parseUnixTimestamp\<close>. A number of at most 13 digits, times 1000 when it has 10, is
  inside the range of \<open>Date\<close>, so \<open>new Date(n)\<close> is \<open>n\<close>.
\<close>

definition parseUnixTimestamp :: "clock \<Rightarrow> string \<Rightarrow> TimeParseResult" where
  "parseUnixTimestamp c timeString =
     (if \<not> UNIX_TIMESTAMP_REGEX timeString then noMatch c timeString
      else let ts = parseInt10 timeString;
               targetTime = (if length timeString = 10 then ts * 1000 else ts)
           in if targetTime \<le> now c then failure c ''Timestamp is in the past'' timeString
              else success (targetTime - now c) targetTime timeString)"

text \<open>
  The natural-language family hands the string to the \<open>moment\<close> library, in strict mode
  with a list of eighteen formats. The library is not part of the program: its parser is
  a parameter, which either throws, or reports an invalid parse, or yields an instant.
\<close>

datatype moment_result = MomentThrows | MomentInvalid | MomentAt int

definition parseNaturalLanguage ::
  "(clock \<Rightarrow> string \<Rightarrow> moment_result) \<Rightarrow> clock \<Rightarrow> string \<Rightarrow> TimeParseResult" where
  "parseNaturalLanguage moment c timeString =
     (let input = toLowerCase timeString
      in case moment c input of
           MomentThrows \<Rightarrow> noMatch c timeString
         | MomentInvalid \<Rightarrow> noMatch c timeString
         | MomentAt parsed0 \<Rightarrow>
             let parsed = (if parsed0 < now c \<and> DAY_NAME_REGEX input
                           then parsed0 + 7 * msPerDay else parsed0);
                 delay = parsed - now c
             in if delay \<le> 0 then failure c ''Parsed time is in the past'' timeString
                else success delay parsed timeString)"

subsection \<open>The entry point\<close>

definition unableToParse :: "string \<Rightarrow> string" where
  "unableToParse timeString =
     ''Unable to parse time format: '' @ [CHR 0x22] @ timeString @ [CHR 0x22]
       @ ''. Supported formats: 6h, 45m, 9:00am, 12/25/2024 9:00am, 1640995200, or ''
       @ [CHR 0x22] @ ''tomorrow 9am'' @ [CHR 0x22]"

text \<open>
  \<open>parseTime\<close> tries the families in order and returns the first result that is valid.
  Its \<open>catch\<close> branch has no counterpart here: the families are total, and what
  \<open>moment\<close> throws is caught inside \<open>parseNaturalLanguage\<close>.
\<close>

definition parseTime ::
  "(clock \<Rightarrow> string \<Rightarrow> moment_result) \<Rightarrow> clock \<Rightarrow> string \<Rightarrow> TimeParseResult" where
  "parseTime moment c timeString =
     (let input = toLowerCase (trim timeString);
          relativeResult = parseRelativeTime c input
      in if isValid relativeResult then relativeResult
         else let absoluteResult = parseAbsoluteTime c input
           in if isValid absoluteResult then absoluteResult
              else let dateTimeResult = parseDateTime c input
                in if isValid dateTimeResult then dateTimeResult
                   else let unixResult = parseUnixTimestamp c input
                     in if isValid unixResult then unixResult
                        else let naturalResult = parseNaturalLanguage moment c input
                          in if isValid naturalResult then naturalResult
                             else failure c (unableToParse timeString) timeString)"

section \<open>The reminder queue and its worker\<close>

text \<open>
  Jobs live in a queue of the BullMQ library, which is not part of the program. A job
  carries its name, its id, its payload and its options; an absent option is \<open>None\<close>.
  An \<open>Error\<close> is modelled by its message.
\<close>

datatype Error = Error (message: string)

record JobsOptions =
  delay :: "int option"
  priority :: "int option"
  jobId :: "string option"
  attempts :: "int option"

record 'd Job =
  name :: string
  id' :: string
  data :: 'd
  opts :: JobsOptions

text \<open>
  The operations of the library's queue are parameters of the functions that call them:
  \<open>queue.add\<close>, \<open>queue.getJob\<close> and \<open>job.remove\<close> take the state \<open>'q\<close> of the queue and
  either throw (\<open>Inl\<close>) or return. A call that throws leaves the state as it was.
\<close>

type_synonym ('q, 'd) queue_add = "'q \<Rightarrow> 'd Job \<Rightarrow> Error + 'q"
type_synonym ('q, 'd) queue_getJob = "'q \<Rightarrow> string \<Rightarrow> Error + 'd Job option"
type_synonym ('q, 'd) job_remove = "'q \<Rightarrow> 'd Job \<Rightarrow> Error + 'q"

subsection \<open>\<open>ReminderQueue.cancelReminder\<close>\<close>

text \<open>The result is the returned boolean and the state of the queue after the call.\<close>

definition cancelReminder ::
  "('q, 'd) queue_getJob \<Rightarrow> ('q, 'd) job_remove \<Rightarrow> 'q \<Rightarrow> string \<Rightarrow> bool \<times> 'q" where
  "cancelReminder getJob remove q jid =
     (case getJob q jid of
        Inl err \<Rightarrow> (False, q)
      | Inr None \<Rightarrow> (False, q)
      | Inr (Some job) \<Rightarrow>
          (case remove q job of
             Inl err \<Rightarrow> (False, q)
           | Inr q' \<Rightarrow> (True, q')))"

subsection \<open>\<open>ReminderWorker\<close>: the retry of a failed job\<close>

definition retryableErrors :: "string list" where
  "retryableErrors =
     [''ECONNRESET'', ''ETIMEDOUT'', ''ENOTFOUND'', ''ECONNREFUSED'', ''Network Error'',
      ''timeout'', ''rate limit'', ''quota exceeded'']"

definition shouldRetry :: "Error \<Rightarrow> bool" where
  "shouldRetry err =
     (let errorMessage = toLowerCase (message err)
      in list_ex (\<lambda>retryable. includes_str errorMessage (toLowerCase retryable))
           retryableErrors)"

text \<open>The job that \<open>scheduleRetry\<close> hands to \<open>queue.add\<close>; \<open>x || 0\<close> reads an absent option as 0.\<close>

definition retryJob :: "int \<Rightarrow> 'd Job \<Rightarrow> 'd Job" where
  "retryJob dateNow job =
     (let retryDelay = min (5 * 60 * 1000) (case delay (opts job) of None \<Rightarrow> 0 | Some d \<Rightarrow> d)
      in \<lparr>name = ''reminder-retry'',
          id' = ''retry-'' @ id' job @ ''-'' @ numberToString dateNow,
          data = data job,
          opts = \<lparr>delay = Some retryDelay,
                   priority = Some ((case priority (opts job) of None \<Rightarrow> 0 | Some p \<Rightarrow> p) + 1),
                   jobId = Some (''retry-'' @ id' job @ ''-'' @ numberToString dateNow),
                   attempts = Some 1\<rparr>\<rparr>)"

text \<open>\<open>scheduleRetry\<close> catches what \<open>queue.add\<close> throws, logs it and returns.\<close>

definition scheduleRetry :: "('q, 'd) queue_add \<Rightarrow> int \<Rightarrow> 'q \<Rightarrow> 'd Job \<Rightarrow> 'q" where
  "scheduleRetry add dateNow q job =
     (case add q (retryJob dateNow job) of
        Inl err \<Rightarrow> q
      | Inr q' \<Rightarrow> q')"

definition handleFailedJob :: "('q, 'd) queue_add \<Rightarrow> int \<Rightarrow> 'q \<Rightarrow> 'd Job \<Rightarrow> Error \<Rightarrow> 'q" where
  "handleFailedJob add dateNow q job err =
     (if shouldRetry err then scheduleRetry add dateNow q job else q)"

text \<open>
  The listener of the worker's \<open>failed\<close> event, set up in \<open>setupWorkerEventHandlers\<close>:
  the event carries the job, which may be absent, and the error.
\<close>

definition on_failed ::
  "('q, 'd) queue_add \<Rightarrow> int \<Rightarrow> 'q \<Rightarrow> 'd Job option \<Rightarrow> Error \<Rightarrow> 'q" where
  "on_failed add dateNow q job err =
     (case job of
        None \<Rightarrow> q
      | Some j \<Rightarrow> if name j = ''reminder'' then handleFailedJob add dateNow q j err else q)"

subsection \<open>A queue in memory\<close>

text \<open>
  To run the functions above on concrete inputs: a queue that is the list of its jobs,
  and a queue whose backing store cannot be reached, every operation of which throws.
\<close>

definition list_add :: "('d Job list, 'd) queue_add" where
  "list_add q job = Inr (q @ [job])"

definition list_getJob :: "('d Job list, 'd) queue_getJob" where
  "list_getJob q jid = Inr (find (\<lambda>j. id' j = jid) q)"

definition list_remove :: "('d Job list, 'd) job_remove" where
  "list_remove q job = Inr (filter (\<lambda>j. id' j \<noteq> id' job) q)"

definition unreachable_add :: "('d Job list, 'd) queue_add" where
  "unreachable_add q job = Inl (Error ''connect ECONNREFUSED 127.0.0.1:6379'')"

definition unreachable_getJob :: "('d Job list, 'd) queue_getJob" where
  "unreachable_getJob q jid = Inl (Error ''connect ECONNREFUSED 127.0.0.1:6379'')"

section \<open>Reference values from the specification\<close>


text \<open>
  The 12-hour conversion in the specification's words: 12 am is hour 0, 12 pm is hour 12,
  any other pm hour is 12 more, and every other hour stays.
\<close>

definition hour24_spec :: "string option \<Rightarrow> int \<Rightarrow> int" where
  "hour24_spec period h =
     (if period = Some ''am'' \<and> h = 12 then 0
      else if period = Some ''pm'' \<and> h = 12 then 12
      else if period = Some ''pm'' then h + 12
      else h)"

section \<open>Evaluation of the primitives\<close>

lemmas js_defs = isDigit_def isWhiteSpace_def toLowerChar_def toLowerCase_def trim_def
  digitVal_def digitChar_def parseInt10_def numberToString_def

lemma numberToString_30: "numberToString 30 = ''30''"
  by (simp add: numberToString_def decimal.simps digitChar_def)

lemma numberToString_2: "numberToString 2 = ''2''"
  by (simp add: numberToString_def decimal.simps digitChar_def)



section \<open>The delay validator\<close>

text \<open>
  Claim C8. For every integer delay \<open>d\<close> and positive integer \<open>maxDays\<close>,
  \<open>validateDelay(d, maxDays)\<close> is valid if and only if \<open>0 < d \<le> maxDays * 86400000\<close>;
  for \<open>d \<le> 0\<close> the error is "Delay must be greater than 0", for \<open>d\<close> above the bound
  it is "Delay cannot exceed N days" with \<open>N\<close> the decimal form of \<open>maxDays\<close>; and an
  omitted \<open>maxDays\<close> is 30.
\<close>

theorem validateDelay_bounds:
  "0 < maxDays \<Longrightarrow>
     isValid' (validateDelay d (Some maxDays)) = (0 < d \<and> d \<le> maxDays * 86400000)
     \<and> (d \<le> 0 \<longrightarrow>
          error' (validateDelay d (Some maxDays)) = Some ''Delay must be greater than 0'')
     \<and> (maxDays * 86400000 < d \<longrightarrow>
          error' (validateDelay d (Some maxDays))
            = Some (''Delay cannot exceed '' @ numberToString maxDays @ '' days''))
     \<and> validateDelay d None = validateDelay d (Some 30)"
proof -
  assume pos: "0 < maxDays"
  have "maxDays * 86400000 < d \<Longrightarrow> 0 < d"
    using pos by (smt (verit) mult_pos_pos)
  then show ?thesis
    by (auto simp add: validateDelay_def Let_def)
qed

theorem validateDelay_bounds_witness:
  "isValid' (validateDelay 3600000 (Some 30))
   \<and> error' (validateDelay 0 (Some 30)) = Some ''Delay must be greater than 0''
   \<and> error' (validateDelay 2678400000 (Some 30)) = Some ''Delay cannot exceed 30 days''
   \<and> validateDelay 2678400000 None = validateDelay 2678400000 (Some 30)"
  using validateDelay_bounds [of 30 3600000] validateDelay_bounds [of 30 0]
    validateDelay_bounds [of 30 2678400000]
  by (simp add: numberToString_30)

section \<open>The delay formatter\<close>

lemma relative_2h: "parseRelativeTime c ''2h'' = success 7200000 (now c + 7200000) ''2h''"
  by (simp add: parseRelativeTime_def RELATIVE_TIME_REGEX_def unitDelay_def js_defs)

lemma trim_2h: "toLowerCase (trim ''2h'') = ''2h''"
  by (simp add: js_defs)

lemma parseTime_2h: "parseTime moment c ''2h'' = success 7200000 (now c + 7200000) ''2h''"
  by (simp add: parseTime_def Let_def trim_2h relative_2h success_def)

lemma minutes_of_ms: "(d::int) div 1000 div 60 = d div 60000"
  by (simp add: div_mult2_eq')

lemma hours_of_minutes: "(d::int) div 60000 div 60 = d div 3600000"
  by (simp add: div_mult2_eq')

lemma formatDelay_mixed: "formatDelay 7323000 = ''2h 2m''"
  by (simp add: formatDelay_def Let_def numberToString_2)

text \<open>From one hour on, the output is a function of the whole minutes and hours alone.\<close>

lemma formatDelay_from_one_hour:
  assumes "3600000 \<le> d"
  shows "formatDelay d =
     (if d div 3600000 < 24 then
        (if 0 < d div 60000 mod 60
         then numberToString (d div 3600000) @ ''h '' @ numberToString (d div 60000 mod 60) @ ''m''
         else numberToString (d div 3600000) @ ''h'')
      else if 0 < d div 3600000 mod 24
        then numberToString (d div 3600000 div 24) @ ''d ''
               @ numberToString (d div 3600000 mod 24) @ ''h''
        else numberToString (d div 3600000 div 24) @ ''d'')"
proof -
  have "\<not> d < 1000" "\<not> d div 1000 < 60" "\<not> d div 60000 < 60"
    using assms by auto
  then show ?thesis
    by (simp add: formatDelay_def Let_def minutes_of_ms hours_of_minutes)
qed

lemma formatDelay_drops_seconds:
  assumes "3600000 \<le> d"
  shows "formatDelay d = formatDelay (d - d mod 60000)"
proof -
  let ?e = "d - d mod 60000"
  have e: "?e = d div 60000 * 60000"
    by (simp add: minus_mod_eq_div_mult)
  have big: "3600000 \<le> ?e"
  proof -
    have "60 \<le> d div 60000" using assms by auto
    then show ?thesis unfolding e by simp
  qed
  have m: "?e div 60000 = d div 60000"
    unfolding e by simp
  have h: "?e div 3600000 = d div 3600000"
  proof -
    have "?e div 3600000 = ?e div 60000 div 60" by (simp only: hours_of_minutes)
    also have "\<dots> = d div 60000 div 60" by (simp only: m)
    also have "\<dots> = d div 3600000" by (simp only: hours_of_minutes)
    finally show ?thesis .
  qed
  show ?thesis
    by (simp only: formatDelay_from_one_hour [OF assms] formatDelay_from_one_hour [OF big] m h)
qed

lemma formatDelay_hours_minutes:
  assumes "3600000 \<le> d" and "d < 86400000"
  shows "formatDelay d =
     (if 0 < d div 60000 mod 60
      then numberToString (d div 3600000) @ ''h '' @ numberToString (d div 60000 mod 60) @ ''m''
      else numberToString (d div 3600000) @ ''h'')"
proof -
  have "d div 3600000 < 24" using assms by auto
  then show ?thesis
    by (simp add: formatDelay_from_one_hour [OF assms(1)])
qed

text \<open>
  Claim C9. \<open>formatDelay\<close> of the delay parsed from "2h" is "2h", and \<open>formatDelay\<close> of
  2 hours 2 minutes 3 seconds is "2h 2m". From one hour on the seconds are dropped: the
  output is that of the delay cut down to whole minutes, and below one day it consists
  of the hours and, when not zero, the minutes.
\<close>

theorem formatDelay_round_trip:
  "formatDelay (delayMs (parseTime moment c ''2h'')) = ''2h''
   \<and> formatDelay (2 * 3600000 + 2 * 60000 + 3 * 1000) = ''2h 2m''
   \<and> (3600000 \<le> d \<longrightarrow> formatDelay d = formatDelay (d - d mod 60000))
   \<and> (3600000 \<le> d \<and> d < 86400000 \<longrightarrow>
        formatDelay d =
          (if 0 < d div 60000 mod 60
           then numberToString (d div 3600000) @ ''h '' @ numberToString (d div 60000 mod 60) @ ''m''
           else numberToString (d div 3600000) @ ''h''))"
proof (intro conjI impI)
  show "formatDelay (delayMs (parseTime moment c ''2h'')) = ''2h''"
    by (simp add: parseTime_2h success_def formatDelay_def Let_def numberToString_2)
  show "formatDelay (2 * 3600000 + 2 * 60000 + 3 * 1000) = ''2h 2m''"
    by (simp add: formatDelay_mixed)
  show "formatDelay d = formatDelay (d - d mod 60000)" if "3600000 \<le> d"
    using that by (rule formatDelay_drops_seconds)
  show "formatDelay d =
          (if 0 < d div 60000 mod 60
           then numberToString (d div 3600000) @ ''h '' @ numberToString (d div 60000 mod 60) @ ''m''
           else numberToString (d div 3600000) @ ''h'')"
    if "3600000 \<le> d \<and> d < 86400000"
    using that by (simp only: formatDelay_hours_minutes)
qed

theorem formatDelay_round_trip_witness:
  "formatDelay (delayMs (parseTime (\<lambda>c s. MomentInvalid) \<lparr>now = 0, tza = 0\<rparr> ''2h'')) = ''2h''
   \<and> formatDelay (2 * 3600000 + 2 * 60000 + 3 * 1000) = ''2h 2m''
   \<and> (3600000::int) \<le> 7323000 \<and> (7323000::int) < 86400000
   \<and> formatDelay 7323000 = formatDelay (7323000 - 7323000 mod 60000)"
proof -
  note w = formatDelay_round_trip [of "\<lambda>c s. MomentInvalid" "\<lparr>now = 0, tza = 0\<rparr>" 7323000]
  have h: "(3600000::int) \<le> 7323000" "(7323000::int) < 86400000"
    by simp_all
  from w h show ?thesis
    by blast
qed

section \<open>The entry point: what \<open>parseTime\<close> returns\<close>

lemmas result_defs = noMatch_def failure_def success_def

lemma parseRelativeTime_fields:
  "originalInput (parseRelativeTime c t) = t"
  "isValid (parseRelativeTime c t) \<Longrightarrow> error (parseRelativeTime c t) = None"
  by (auto simp add: parseRelativeTime_def result_defs Let_def split: option.splits prod.splits if_splits)

lemma parseAbsoluteTime_fields:
  "originalInput (parseAbsoluteTime c t) = t"
  "isValid (parseAbsoluteTime c t) \<Longrightarrow> error (parseAbsoluteTime c t) = None"
  by (auto simp add: parseAbsoluteTime_def result_defs Let_def split: option.splits prod.splits if_splits)

lemma parseDateTime_fields:
  "originalInput (parseDateTime c t) = t"
  "isValid (parseDateTime c t) \<Longrightarrow> error (parseDateTime c t) = None"
  by (auto simp add: parseDateTime_def result_defs Let_def split: option.splits prod.splits if_splits)

lemma parseUnixTimestamp_fields:
  "originalInput (parseUnixTimestamp c t) = t"
  "isValid (parseUnixTimestamp c t) \<Longrightarrow> error (parseUnixTimestamp c t) = None"
  by (auto simp add: parseUnixTimestamp_def result_defs Let_def split: if_splits)

lemma parseNaturalLanguage_fields:
  "originalInput (parseNaturalLanguage moment c t) = t"
  "isValid (parseNaturalLanguage moment c t) \<Longrightarrow> error (parseNaturalLanguage moment c t) = None"
  by (auto simp add: parseNaturalLanguage_def result_defs Let_def split: moment_result.splits if_splits)

lemmas family_fields = parseRelativeTime_fields parseAbsoluteTime_fields parseDateTime_fields
  parseUnixTimestamp_fields parseNaturalLanguage_fields

lemma parseTime_valid_originalInput:
  "isValid (parseTime moment c s) \<Longrightarrow> originalInput (parseTime moment c s) = toLowerCase (trim s)"
  by (simp add: parseTime_def Let_def family_fields failure_def split: if_splits)

lemma parseTime_error:
  "error (parseTime moment c s) = None \<or> error (parseTime moment c s) = Some (unableToParse s)"
  by (simp add: parseTime_def Let_def family_fields failure_def)

lemma parseTime_invalid:
  "\<not> isValid (parseTime moment c s) \<Longrightarrow> parseTime moment c s = failure c (unableToParse s) s"
  by (simp add: parseTime_def Let_def split: if_splits)

text \<open>
  Claim C10. Whenever \<open>parseTime\<close> returns a valid result, its \<open>originalInput\<close> is the
  trimmed, lower-cased form of the caller's string; where that form differs from the
  string as supplied, the string as supplied is not what the result holds.
\<close>

theorem parseTime_originalInput:
  "isValid (parseTime moment c s) \<Longrightarrow>
     originalInput (parseTime moment c s) = toLowerCase (trim s)
     \<and> (toLowerCase (trim s) \<noteq> s \<longrightarrow> originalInput (parseTime moment c s) \<noteq> s)"
  using parseTime_valid_originalInput [of moment c s] by simp

lemma trim_lower_2H: "toLowerCase (trim ''  2H '') = ''2h''"
  by code_simp

lemma parseTime_2H: "parseTime moment c ''  2H '' = success 7200000 (now c + 7200000) ''2h''"
  by (simp add: parseTime_def Let_def trim_lower_2H relative_2h success_def)

theorem parseTime_originalInput_witness:
  "isValid (parseTime (\<lambda>c s. MomentInvalid) \<lparr>now = 0, tza = 0\<rparr> ''  2H '')
   \<and> originalInput (parseTime (\<lambda>c s. MomentInvalid) \<lparr>now = 0, tza = 0\<rparr> ''  2H '') = ''2h''
   \<and> originalInput (parseTime (\<lambda>c s. MomentInvalid) \<lparr>now = 0, tza = 0\<rparr> ''  2H '') \<noteq> ''  2H ''"
proof -
  have v: "isValid (parseTime (\<lambda>c s. MomentInvalid) \<lparr>now = 0, tza = 0\<rparr> ''  2H '')"
    by (simp add: parseTime_2H success_def)
  have ne: "toLowerCase (trim ''  2H '') \<noteq> ''  2H ''"
    by (simp add: trim_lower_2H)
  from parseTime_originalInput [OF v] v ne show ?thesis
    by (simp add: trim_lower_2H)
qed

lemma relative_0h:
  "parseRelativeTime c ''0h'' = failure c ''Time value must be greater than 0'' ''0h''"
  by (simp add: parseRelativeTime_def RELATIVE_TIME_REGEX_def js_defs)

lemma absolute_2500:
  "parseAbsoluteTime c ''25:00'' = failure c ''Invalid time values'' ''25:00''"
  by (simp add: parseAbsoluteTime_def ABSOLUTE_TIME_REGEX_def period_tail_def adjustHour_def js_defs)

lemma parseTime_0h:
  "parseTime (\<lambda>c s. MomentInvalid) c ''0h'' = failure c (unableToParse ''0h'') ''0h''"
proof -
  have "\<not> isValid (parseTime (\<lambda>c s. MomentInvalid) c ''0h'')"
    by (simp add: parseTime_def Let_def relative_0h parseAbsoluteTime_def ABSOLUTE_TIME_REGEX_def
      parseDateTime_def DATE_TIME_REGEX_def parseUnixTimestamp_def UNIX_TIMESTAMP_REGEX_def
      parseNaturalLanguage_def result_defs js_defs)
  then show ?thesis by (rule parseTime_invalid)
qed

lemma parseTime_2500:
  "parseTime (\<lambda>c s. MomentInvalid) c ''25:00'' = failure c (unableToParse ''25:00'') ''25:00''"
proof -
  have "\<not> isValid (parseTime (\<lambda>c s. MomentInvalid) c ''25:00'')"
    by (simp add: parseTime_def Let_def absolute_2500 parseRelativeTime_def RELATIVE_TIME_REGEX_def
      parseDateTime_def DATE_TIME_REGEX_def parseUnixTimestamp_def UNIX_TIMESTAMP_REGEX_def
      parseNaturalLanguage_def result_defs js_defs)
  then show ?thesis by (rule parseTime_invalid)
qed

text \<open>
  Claim C1. A string that matches a family structurally but carries invalid values should
  get that family's error from \<open>parseTime\<close>. It does not: the family reports its error
  (\<open>parseRelativeTime\<close> on "0h", \<open>parseAbsoluteTime\<close> on "25:00"), but \<open>parseTime\<close> keeps
  a family's result only when it is valid, moves on to the later families, and ends in
  the general "Unable to parse time format" failure. Whatever the \<open>moment\<close> library
  does, the error of \<open>parseTime\<close> on "0h" is not the "greater than 0" reason and on
  "25:00" is not the "Invalid time values" reason.
\<close>

theorem parseTime_discards_family_error:
  "parseRelativeTime c ''0h'' = failure c ''Time value must be greater than 0'' ''0h''
   \<and> parseAbsoluteTime c ''25:00'' = failure c ''Invalid time values'' ''25:00''
   \<and> parseTime (\<lambda>c s. MomentInvalid) c ''0h'' = failure c (unableToParse ''0h'') ''0h''
   \<and> parseTime (\<lambda>c s. MomentInvalid) c ''25:00'' = failure c (unableToParse ''25:00'') ''25:00''
   \<and> error (parseTime moment c ''0h'') \<noteq> Some ''Time value must be greater than 0''
   \<and> error (parseTime moment c ''25:00'') \<noteq> Some ''Invalid time values''"
proof (intro conjI)
  show "error (parseTime moment c ''0h'') \<noteq> Some ''Time value must be greater than 0''"
    using parseTime_error [of moment c "''0h''"] by (auto simp add: unableToParse_def)
  show "error (parseTime moment c ''25:00'') \<noteq> Some ''Invalid time values''"
    using parseTime_error [of moment c "''25:00''"] by (auto simp add: unableToParse_def)
qed (simp_all only: relative_0h absolute_2500 parseTime_0h parseTime_2500)

section \<open>Relative durations\<close>






lemma digit_not_space: "isDigit ch \<Longrightarrow> \<not> isWhiteSpace ch"
  by (auto simp add: isDigit_def isWhiteSpace_def)

lemma toLowerChar_digit: "isDigit ch \<Longrightarrow> toLowerChar ch = ch"
  by (auto simp add: isDigit_def toLowerChar_def Let_def)

lemma toLowerCase_digits: "list_all isDigit ds \<Longrightarrow> toLowerCase ds = ds"
  by (induction ds) (auto simp add: toLowerCase_def toLowerChar_digit)

lemma trim_id:
  assumes "s \<noteq> []" and "\<not> isWhiteSpace (hd s)" and "\<not> isWhiteSpace (last s)"
  shows "trim s = s"
proof -
  have a: "dropWhile isWhiteSpace s = s"
    using assms(1,2) by (cases s) auto
  have "rev s \<noteq> []" "\<not> isWhiteSpace (hd (rev s))"
    using assms(1,3) by (simp_all add: hd_rev)
  then have b: "dropWhile isWhiteSpace (rev s) = rev s"
    by (cases "rev s") auto
  show ?thesis by (simp add: trim_def a b)
qed











section \<open>Clock times\<close>

lemma all_digits_iff: "list_all isDigit ds \<longleftrightarrow> (\<forall>x\<in>set ds. isDigit x)"
  by (simp add: list_all_iff)

lemma colon_not_digit: "\<not> isDigit CHR '':''" "\<not> isDigit CHR ''/''"
  by (simp_all add: isDigit_def)

lemma span_digits:
  assumes "list_all isDigit ds" and "\<not> isDigit x"
  shows "takeWhile isDigit (ds @ x # r) = ds" "dropWhile isDigit (ds @ x # r) = x # r"
  using assms by (simp_all add: list_all_iff takeWhile_append2 dropWhile_append2)

lemma span_spaces:
  assumes "list_all isWhiteSpace ws" and "\<not> isWhiteSpace x"
  shows "takeWhile isWhiteSpace (ws @ x # r) = ws" "dropWhile isWhiteSpace (ws @ x # r) = x # r"
  using assms by (simp_all add: list_all_iff takeWhile_append2 dropWhile_append2)

text \<open>The period words, in any letter case.\<close>

lemma period_word_cases:
  assumes "toLowerCase p = ''am'' \<or> toLowerCase p = ''pm''"
  obtains a b where "p = [a, b]" "\<not> isWhiteSpace a" "\<not> isDigit a"
proof -
  from assms have "length p = 2"
    by (auto simp add: toLowerCase_def dest!: arg_cong [where f = length])
  then obtain a b where p: "p = [a, b]"
    by (cases p; cases "tl p") auto
  have "toLowerChar a = CHR ''a'' \<or> toLowerChar a = CHR ''p''"
    using assms p by (auto simp add: toLowerCase_def)
  then have "\<not> isWhiteSpace a \<and> \<not> isDigit a"
    by (auto simp add: toLowerChar_def isWhiteSpace_def isDigit_def Let_def split: if_splits)
  with p show ?thesis using that by blast
qed

lemma period_tail_empty: "period_tail [] = Some None"
  by (simp add: period_tail_def)

lemma period_tail_word:
  assumes "list_all isWhiteSpace ws" and "toLowerCase p = ''am'' \<or> toLowerCase p = ''pm''"
  shows "period_tail (ws @ p) = Some (Some p)"
proof -
  from assms(2) obtain a b where p: "p = [a, b]" and a: "\<not> isWhiteSpace a"
    by (rule period_word_cases)
  have "dropWhile isWhiteSpace (ws @ p) = p"
    unfolding p using span_spaces(2) [OF assms(1) a, of "[b]"] by simp
  then show ?thesis
    using assms(2) p by (simp add: period_tail_def Let_def)
qed

text \<open>
  The suffix of a clock time: nothing, or optional white space and a period word. The
  period that the parser sees is the lower-cased word.
\<close>

lemma ABSOLUTE_TIME_REGEX_match:
  assumes "list_all isDigit hs" "length hs = 1 \<or> length hs = 2"
    and "list_all isDigit ms" "length ms = 2"
    and "period_tail r = Some p"
  shows "ABSOLUTE_TIME_REGEX (hs @ '':'' @ ms @ r) = Some (hs, ms, p)"
proof -
  have t: "takeWhile isDigit (hs @ CHR '':'' # ms @ r) = hs"
    and d: "dropWhile isDigit (hs @ CHR '':'' # ms @ r) = CHR '':'' # ms @ r"
    using span_digits [OF assms(1) colon_not_digit(1)] by simp_all
  show ?thesis
    using assms by (simp add: ABSOLUTE_TIME_REGEX_def Let_def t d)
qed


lemma digitVal_nonneg: "isDigit x \<Longrightarrow> 0 \<le> digitVal x"
  by (simp add: isDigit_def digitVal_def)

lemma foldl_digits_nonneg:
  "list_all isDigit ds \<Longrightarrow> 0 \<le> a \<Longrightarrow> 0 \<le> foldl (\<lambda>acc x. 10 * acc + digitVal x) a ds"
  by (induction ds arbitrary: a) (simp_all add: digitVal_nonneg)

lemma parseInt10_nonneg: "0 \<le> parseInt10 s"
proof -
  have "list_all isDigit (takeWhile isDigit s)"
    by (simp add: list_all_iff) (meson set_takeWhileD)
  then show ?thesis
    unfolding parseInt10_def by (rule foldl_digits_nonneg) simp
qed

lemma Day_MakeDate:
  assumes "0 \<le> tm" and "tm < msPerDay"
  shows "Day (MakeDate D tm) = D" and "TimeWithinDay (MakeDate D tm) = tm"
  using assms by (simp_all add: Day_def TimeWithinDay_def MakeDate_def msPerDay_def)

lemma MakeTime_range:
  assumes "0 \<le> h" "h \<le> 23" "0 \<le> m" "m \<le> 59"
  shows "0 \<le> MakeTime h m 0 0" and "MakeTime h m 0 0 < msPerDay"
  using assms by (simp_all add: MakeTime_def msPerDay_def)

lemma setDate_next_setHours:
  assumes "0 \<le> h" "h \<le> 23" "0 \<le> m" "m \<le> 59"
  shows "setDate_next c (setHours c t h m) = setHours c t h m + msPerDay"
proof -
  let ?tm = "MakeTime h m 0 0"
  let ?D = "Day (LocalTime c t)"
  have l: "LocalTime c (setHours c t h m) = MakeDate ?D ?tm"
    by (simp add: LocalTime_def setHours_def UTC_def)
  show ?thesis
    unfolding setDate_next_def l Day_MakeDate [OF MakeTime_range [OF assms]]
    by (simp add: setHours_def UTC_def MakeDate_def algebra_simps)
qed

lemma local_day_bounds:
  "Day (LocalTime c t) * msPerDay \<le> LocalTime c t"
  "LocalTime c t < Day (LocalTime c t) * msPerDay + msPerDay"
proof -
  have "LocalTime c t = Day (LocalTime c t) * msPerDay + LocalTime c t mod msPerDay"
    by (simp add: Day_def)
  moreover have "0 \<le> LocalTime c t mod msPerDay" "LocalTime c t mod msPerDay < msPerDay"
    by (simp_all add: msPerDay_def)
  ultimately show "Day (LocalTime c t) * msPerDay \<le> LocalTime c t"
    "LocalTime c t < Day (LocalTime c t) * msPerDay + msPerDay"
    by linarith+
qed


lemma adjustHour_spec: "adjustHour period h = hour24_spec period h"
  by (simp add: adjustHour_def hour24_spec_def)

lemma hour24_spec_nonneg: "0 \<le> h \<Longrightarrow> 0 \<le> hour24_spec period h"
  by (simp add: hour24_spec_def)

lemma clock_suffix:
  assumes "list_all isWhiteSpace ws"
    and "case per of None \<Rightarrow> True | Some p \<Rightarrow> toLowerCase p = ''am'' \<or> toLowerCase p = ''pm''"
  shows "period_tail (case per of None \<Rightarrow> [] | Some p \<Rightarrow> ws @ p) = Some per"
  using assms by (cases per) (simp_all add: period_tail_empty period_tail_word)

lemma parseAbsoluteTime_matched:
  assumes "ABSOLUTE_TIME_REGEX s = Some (hs, ms, per)"
  shows "parseAbsoluteTime c s =
    (let hour = hour24_spec (map_option toLowerCase per) (parseInt10 hs);
         minute = parseInt10 ms;
         today = setHours c (now c) hour minute
     in if hour \<le> 23 \<and> minute \<le> 59
        then success ((if today \<le> now c then today + msPerDay else today) - now c)
               (if today \<le> now c then today + msPerDay else today) s
        else failure c ''Invalid time values'' s)"
proof -
  let ?hour = "hour24_spec (map_option toLowerCase per) (parseInt10 hs)"
  let ?minute = "parseInt10 ms"
  have nn: "0 \<le> ?hour" "0 \<le> ?minute"
    by (simp_all add: hour24_spec_nonneg parseInt10_nonneg)
  show ?thesis
  proof (cases "?hour \<le> 23 \<and> ?minute \<le> 59")
    case True
    then have "setDate_next c (setHours c (now c) ?hour ?minute)
        = setHours c (now c) ?hour ?minute + msPerDay"
      using nn by (intro setDate_next_setHours) simp_all
    then show ?thesis
      using True nn by (simp add: parseAbsoluteTime_def assms adjustHour_spec Let_def)
  next
    case False
    then show ?thesis
      using nn by (auto simp add: parseAbsoluteTime_def assms adjustHour_spec Let_def)
  qed
qed

lemma clock_target:
  fixes c :: clock and h m :: int
  assumes "0 \<le> h" "h \<le> 23" "0 \<le> m" "m \<le> 59"
  defines "today \<equiv> Day (LocalTime c (now c)) * msPerDay + h * 3600000 + m * 60000 - tza c"
  defines "target \<equiv> (if today \<le> now c then today + msPerDay else today)"
  shows "setHours c (now c) h m = today"
    and "now c < target"
    and "target - now c \<le> msPerDay"
    and "Day (LocalTime c target) = Day (LocalTime c (now c)) + (if today \<le> now c then 1 else 0)"
    and "TimeWithinDay (LocalTime c target) = h * 3600000 + m * 60000"
proof -
  let ?D = "Day (LocalTime c (now c))"
  let ?tm = "MakeTime h m 0 0"
  have tm: "?tm = h * 3600000 + m * 60000"
    by (simp add: MakeTime_def)
  have r: "0 \<le> ?tm" "?tm < msPerDay"
    using assms(1-4) by (rule MakeTime_range)+
  show sh: "setHours c (now c) h m = today"
    by (simp add: setHours_def UTC_def MakeDate_def tm today_def)
  have lt: "LocalTime c today = MakeDate ?D ?tm"
    by (simp add: LocalTime_def today_def MakeDate_def tm)
  have lt': "LocalTime c (today + msPerDay) = MakeDate (?D + 1) ?tm"
    by (simp add: LocalTime_def today_def MakeDate_def tm algebra_simps)
  have b: "?D * msPerDay \<le> now c + tza c" "now c + tza c < ?D * msPerDay + msPerDay"
    using local_day_bounds [of c "now c"] by (simp_all add: LocalTime_def)
  show "now c < target"
    using b r by (simp add: target_def today_def tm)
  show "target - now c \<le> msPerDay"
    using b r by (simp add: target_def today_def tm)
  note dm = Day_MakeDate [OF r]
  show "Day (LocalTime c target) = ?D + (if today \<le> now c then 1 else 0)"
    by (simp add: target_def lt lt' dm)
  have "TimeWithinDay (LocalTime c target) = ?tm"
    by (simp add: target_def lt lt' dm)
  then show "TimeWithinDay (LocalTime c target) = h * 3600000 + m * 60000"
    by (simp only: tm)
qed


text \<open>
  Claim C4. For every clock-time input \<open>H:MM\<close> with an optional am or pm (one or two
  digits, a colon, two digits, then nothing or optional white space and the period in any
  letter case): 12 am is hour 0, 12 pm is hour 12 and any other pm hour is 12 more. When
  the hour is at most 23 and the minute at most 59, the result is valid; its timestamp is
  today's local date at that clock time, moved on by exactly one day when that instant is
  not after now, so that it lies after now on today's or tomorrow's date at the given
  clock time; and \<open>delayMs\<close> is the timestamp minus now. Otherwise the result is the
  "Invalid time values" failure.
\<close>

theorem parseAbsoluteTime_clock:
  "list_all isDigit hs \<Longrightarrow> length hs = 1 \<or> length hs = 2 \<Longrightarrow>
   list_all isDigit ms \<Longrightarrow> length ms = 2 \<Longrightarrow> list_all isWhiteSpace ws \<Longrightarrow>
   (case per of None \<Rightarrow> True | Some p \<Rightarrow> toLowerCase p = ''am'' \<or> toLowerCase p = ''pm'') \<Longrightarrow>
   (let s = hs @ '':'' @ ms @ (case per of None \<Rightarrow> [] | Some p \<Rightarrow> ws @ p);
        hour = hour24_spec (map_option toLowerCase per) (parseInt10 hs);
        minute = parseInt10 ms;
        today = Day (LocalTime c (now c)) * msPerDay + hour * 3600000 + minute * 60000 - tza c;
        target = (if today \<le> now c then today + msPerDay else today)
    in if hour \<le> 23 \<and> minute \<le> 59
       then parseAbsoluteTime c s
              = \<lparr>isValid = True, delayMs = target - now c, timestamp = target, error = None,
                 originalInput = s\<rparr>
            \<and> now c < target
            \<and> Day (LocalTime c target)
                = Day (LocalTime c (now c)) + (if today \<le> now c then 1 else 0)
            \<and> TimeWithinDay (LocalTime c target) = hour * 3600000 + minute * 60000
       else parseAbsoluteTime c s = failure c ''Invalid time values'' s)"
proof -
  assume hs: "list_all isDigit hs" "length hs = 1 \<or> length hs = 2"
    and ms: "list_all isDigit ms" "length ms = 2"
    and ws: "list_all isWhiteSpace ws"
    and per: "case per of None \<Rightarrow> True | Some p \<Rightarrow> toLowerCase p = ''am'' \<or> toLowerCase p = ''pm''"
  let ?s = "hs @ '':'' @ ms @ (case per of None \<Rightarrow> [] | Some p \<Rightarrow> ws @ p)"
  let ?hour = "hour24_spec (map_option toLowerCase per) (parseInt10 hs)"
  let ?minute = "parseInt10 ms"
  have m: "ABSOLUTE_TIME_REGEX ?s = Some (hs, ms, per)"
    using hs ms clock_suffix [OF ws per] by (rule ABSOLUTE_TIME_REGEX_match)
  note p = parseAbsoluteTime_matched [OF m, of c]
  have nn: "0 \<le> ?hour" "0 \<le> ?minute"
    by (simp_all add: hour24_spec_nonneg parseInt10_nonneg)
  let ?today = "Day (LocalTime c (now c)) * msPerDay + ?hour * 3600000 + ?minute * 60000 - tza c"
  let ?target = "if ?today \<le> now c then ?today + msPerDay else ?today"
  show ?thesis
  proof (cases "?hour \<le> 23 \<and> ?minute \<le> 59")
    case True
    then have r: "0 \<le> ?hour" "?hour \<le> 23" "0 \<le> ?minute" "?minute \<le> 59"
      using nn by simp_all
    note t = clock_target [OF r, of c]
    have pa: "parseAbsoluteTime c ?s = success (?target - now c) ?target ?s"
      unfolding p Let_def t(1) if_P [OF True] ..
    show ?thesis
      unfolding Let_def if_P [OF True]
    proof (intro conjI)
      show "parseAbsoluteTime c ?s
          = \<lparr>isValid = True, delayMs = ?target - now c, timestamp = ?target, error = None,
             originalInput = ?s\<rparr>"
        unfolding pa success_def ..
      show "now c < ?target" by (rule t(2))
      show "Day (LocalTime c ?target)
          = Day (LocalTime c (now c)) + (if ?today \<le> now c then 1 else 0)"
        by (rule t(4))
      show "TimeWithinDay (LocalTime c ?target) = ?hour * 3600000 + ?minute * 60000"
        by (rule t(5))
    qed
  next
    case False
    have "parseAbsoluteTime c ?s = failure c ''Invalid time values'' ?s"
      unfolding p Let_def if_not_P [OF False] ..
    then show ?thesis
      unfolding Let_def if_not_P [OF False] .
  qed
qed

lemma clock_1230am:
  "list_all isDigit ''12''" "list_all isDigit ''30''" "list_all isWhiteSpace '' ''"
  "toLowerCase ''AM'' = ''am''" "parseInt10 ''12'' = 12" "parseInt10 ''30'' = 30"
  by code_simp+


theorem parseAbsoluteTime_clock_witness:
  "parseAbsoluteTime \<lparr>now = 1793659260000, tza = 0\<rparr> ''12:30 AM''
     = \<lparr>isValid = True, delayMs = 6540000, timestamp = 1793665800000, error = None,
        originalInput = ''12:30 AM''\<rparr>
   \<and> Day 1793665800000 = Day 1793659260000 + 1
   \<and> TimeWithinDay 1793665800000 = 0 * 3600000 + 30 * 60000"
proof -
  have per: "case Some ''AM'' of None \<Rightarrow> True
      | Some p \<Rightarrow> toLowerCase p = ''am'' \<or> toLowerCase p = ''pm''"
    by (simp add: clock_1230am)
  have len: "length ''12'' = 1 \<or> length ''12'' = 2" "length ''30'' = 2"
    by simp_all
  note w = parseAbsoluteTime_clock [OF clock_1230am(1) len(1) clock_1230am(2) len(2)
      clock_1230am(3) per, of "\<lparr>now = 1793659260000, tza = 0\<rparr>"]
  have d: "Day 1793659260000 = 20759"
    by (simp add: Day_def msPerDay_def)
  show ?thesis
    using w by (simp add: Let_def clock_1230am hour24_spec_def LocalTime_def d msPerDay_def)
qed

section \<open>Unix timestamps\<close>

lemma dropWhile_all: "list_all P xs \<Longrightarrow> dropWhile P xs = []"
  by (induction xs) auto

lemma digits_no_relative: "list_all isDigit s \<Longrightarrow> RELATIVE_TIME_REGEX s = None"
  by (simp add: RELATIVE_TIME_REGEX_def dropWhile_all)

lemma digits_no_absolute: "list_all isDigit s \<Longrightarrow> ABSOLUTE_TIME_REGEX s = None"
  by (simp add: ABSOLUTE_TIME_REGEX_def dropWhile_all Let_def cong: if_cong)

lemma digits_no_dateTime: "list_all isDigit s \<Longrightarrow> DATE_TIME_REGEX s = None"
  by (simp add: DATE_TIME_REGEX_def dropWhile_all Let_def cong: if_cong)

lemma trim_digits:
  assumes "list_all isDigit s"
  shows "toLowerCase (trim s) = s"
proof (cases "s = []")
  case True
  then show ?thesis by (simp add: trim_def toLowerCase_def)
next
  case False
  then have "isDigit (hd s)" "isDigit (last s)"
    using assms by (simp_all add: list_all_iff)
  then have "trim s = s"
    using False by (intro trim_id) (simp_all add: digit_not_space)
  then show ?thesis
    using assms by (simp add: toLowerCase_digits)
qed

lemma parseUnixTimestamp_matched:
  assumes "list_all isDigit s" "10 \<le> length s" "length s \<le> 13"
  shows "parseUnixTimestamp c s =
    (let t = (if length s = 10 then parseInt10 s * 1000 else parseInt10 s)
     in if t \<le> now c then failure c ''Timestamp is in the past'' s
        else success (t - now c) t s)"
  using assms by (simp add: parseUnixTimestamp_def UNIX_TIMESTAMP_REGEX_def Let_def)

lemma parseTime_digits:
  assumes "list_all isDigit s" and "isValid (parseUnixTimestamp c s)"
  shows "parseTime moment c s = parseUnixTimestamp c s"
  using assms
  by (simp add: parseTime_def Let_def trim_digits parseRelativeTime_def parseAbsoluteTime_def
      parseDateTime_def digits_no_relative digits_no_absolute digits_no_dateTime noMatch_def)

text \<open>
  Claim C5, as the code has it. The unix-timestamp family matches exactly the strings of
  10, 11, 12 or 13 digits. A string of 10 digits is read as seconds since the epoch, one
  of 11, 12 or 13 digits as milliseconds. A timestamp that is not after now gives the
  "Timestamp is in the past" failure; a later one gives a valid result whose \<open>delayMs\<close> is
  the exact difference in milliseconds, and \<open>parseTime\<close> returns that result.
\<close>

theorem parseUnixTimestamp_digits:
  "(UNIX_TIMESTAMP_REGEX s \<longleftrightarrow> list_all isDigit s \<and> length s \<in> {10, 11, 12, 13})
   \<and> (\<not> UNIX_TIMESTAMP_REGEX s \<longrightarrow> parseUnixTimestamp c s = noMatch c s)
   \<and> (UNIX_TIMESTAMP_REGEX s \<longrightarrow>
        (let t = (if length s = 10 then parseInt10 s * 1000 else parseInt10 s)
         in if t \<le> now c
            then parseUnixTimestamp c s = failure c ''Timestamp is in the past'' s
            else parseUnixTimestamp c s
                   = \<lparr>isValid = True, delayMs = t - now c, timestamp = t, error = None,
                      originalInput = s\<rparr>
                 \<and> parseTime moment c s = parseUnixTimestamp c s))"
proof (intro conjI impI)
  show "UNIX_TIMESTAMP_REGEX s \<longleftrightarrow> list_all isDigit s \<and> length s \<in> {10, 11, 12, 13}"
    by (auto simp add: UNIX_TIMESTAMP_REGEX_def)
  show "parseUnixTimestamp c s = noMatch c s" if "\<not> UNIX_TIMESTAMP_REGEX s"
    using that by (simp add: parseUnixTimestamp_def)
  show "let t = (if length s = 10 then parseInt10 s * 1000 else parseInt10 s)
         in if t \<le> now c
            then parseUnixTimestamp c s = failure c ''Timestamp is in the past'' s
            else parseUnixTimestamp c s
                   = \<lparr>isValid = True, delayMs = t - now c, timestamp = t, error = None,
                      originalInput = s\<rparr>
                 \<and> parseTime moment c s = parseUnixTimestamp c s"
    if m: "UNIX_TIMESTAMP_REGEX s"
  proof -
    let ?t = "if length s = 10 then parseInt10 s * 1000 else parseInt10 s"
    from m have d: "list_all isDigit s" "10 \<le> length s" "length s \<le> 13"
      by (simp_all add: UNIX_TIMESTAMP_REGEX_def)
    note p = parseUnixTimestamp_matched [OF d, of c]
    show ?thesis
    proof (cases "?t \<le> now c")
      case True
      have "parseUnixTimestamp c s = failure c ''Timestamp is in the past'' s"
        unfolding p Let_def if_P [OF True] ..
      then show ?thesis
        unfolding Let_def if_P [OF True] .
    next
      case False
      have u: "parseUnixTimestamp c s = success (?t - now c) ?t s"
        unfolding p Let_def if_not_P [OF False] ..
      then have "isValid (parseUnixTimestamp c s)"
        by (simp add: success_def)
      then have "parseTime moment c s = parseUnixTimestamp c s"
        using d(1) by (intro parseTime_digits)
      then show ?thesis
        unfolding Let_def if_not_P [OF False] using u by (simp add: success_def)
    qed
  qed
qed

lemma unix_examples:
  "UNIX_TIMESTAMP_REGEX ''12345678901''" "UNIX_TIMESTAMP_REGEX ''1893459600''"
  "UNIX_TIMESTAMP_REGEX ''1893459600000''" "\<not> UNIX_TIMESTAMP_REGEX ''123456789''"
  "parseInt10 ''12345678901'' = 12345678901" "parseInt10 ''1893459600'' = 1893459600"
  "parseInt10 ''1893459600000'' = 1893459600000"
  by code_simp+

text \<open>
  Claim C5 as stated says that only strings of 10 or of 13 digits match. A string of 11
  digits matches too: it is read as milliseconds, and the family answers for it.
\<close>

theorem UNIX_TIMESTAMP_REGEX_eleven_digits:
  "UNIX_TIMESTAMP_REGEX ''12345678901''
   \<and> length ''12345678901'' \<noteq> 10 \<and> length ''12345678901'' \<noteq> 13
   \<and> parseUnixTimestamp \<lparr>now = 1793659260000, tza = 0\<rparr> ''12345678901''
       = \<lparr>isValid = False, delayMs = 0, timestamp = 1793659260000,
          error = Some ''Timestamp is in the past'', originalInput = ''12345678901''\<rparr>
   \<and> parseUnixTimestamp \<lparr>now = 1000, tza = 0\<rparr> ''12345678901''
       = \<lparr>isValid = True, delayMs = 12345677901, timestamp = 12345678901,
          error = None, originalInput = ''12345678901''\<rparr>"
  by (simp add: parseUnixTimestamp_def unix_examples failure_def success_def)

theorem parseUnixTimestamp_digits_witness:
  "parseUnixTimestamp \<lparr>now = 1793659260000, tza = 0\<rparr> ''1893459600''
     = \<lparr>isValid = True, delayMs = 99800340000, timestamp = 1893459600000, error = None,
        originalInput = ''1893459600''\<rparr>
   \<and> parseTime (\<lambda>c s. MomentInvalid) \<lparr>now = 1793659260000, tza = 0\<rparr> ''1893459600''
     = parseUnixTimestamp \<lparr>now = 1793659260000, tza = 0\<rparr> ''1893459600''
   \<and> parseUnixTimestamp \<lparr>now = 1793659260000, tza = 0\<rparr> ''12345678901''
     = failure \<lparr>now = 1793659260000, tza = 0\<rparr> ''Timestamp is in the past'' ''12345678901''
   \<and> parseUnixTimestamp \<lparr>now = 1793659260000, tza = 0\<rparr> ''123456789''
     = noMatch \<lparr>now = 1793659260000, tza = 0\<rparr> ''123456789''"
proof -
  note w1 = parseUnixTimestamp_digits [of "''1893459600''" "\<lparr>now = 1793659260000, tza = 0\<rparr>"
      "\<lambda>c s. MomentInvalid"]
  note w2 = parseUnixTimestamp_digits [of "''12345678901''" "\<lparr>now = 1793659260000, tza = 0\<rparr>"
      "\<lambda>c s. MomentInvalid"]
  note w3 = parseUnixTimestamp_digits [of "''123456789''" "\<lparr>now = 1793659260000, tza = 0\<rparr>"
      "\<lambda>c s. MomentInvalid"]
  from w1 have a: "parseUnixTimestamp \<lparr>now = 1793659260000, tza = 0\<rparr> ''1893459600''
     = \<lparr>isValid = True, delayMs = 99800340000, timestamp = 1893459600000, error = None,
        originalInput = ''1893459600''\<rparr>
   \<and> parseTime (\<lambda>c s. MomentInvalid) \<lparr>now = 1793659260000, tza = 0\<rparr> ''1893459600''
     = parseUnixTimestamp \<lparr>now = 1793659260000, tza = 0\<rparr> ''1893459600''"
    by (simp add: unix_examples Let_def)
  from w2 have b: "parseUnixTimestamp \<lparr>now = 1793659260000, tza = 0\<rparr> ''12345678901''
     = failure \<lparr>now = 1793659260000, tza = 0\<rparr> ''Timestamp is in the past'' ''12345678901''"
    by (simp add: unix_examples Let_def)
  from w3 have c: "parseUnixTimestamp \<lparr>now = 1793659260000, tza = 0\<rparr> ''123456789''
     = noMatch \<lparr>now = 1793659260000, tza = 0\<rparr> ''123456789''"
    by (simp add: unix_examples)
  from a b c show ?thesis by blast
qed

section \<open>Explicit dates\<close>

text \<open>
  Claim C6. An explicit date whose calendar values are invalid, such as month 13, should be
  rejected with a parse error. \<open>parseDateTime\<close> tests the constructed \<open>Date\<close> for \<open>NaN\<close>,
  but the constructor carries a month beyond December into the next year instead: with
  now at 2026-11-02 22:41 UTC, "13/01/2030 9:00am" is accepted as 1 January 2031, 9:00,
  the very result of "01/01/2031 9:00am". A date in the past is rejected by
  \<open>parseDateTime\<close> with "Date is in the past", without any roll-forward.
\<close>

theorem parseDateTime_month_13:
  "parseDateTime \<lparr>now = 1793659260000, tza = 0\<rparr> ''13/01/2030 9:00am''
     = \<lparr>isValid = True, delayMs = 131365140000, timestamp = 1925024400000, error = None,
        originalInput = ''13/01/2030 9:00am''\<rparr>
   \<and> parseDateTime \<lparr>now = 1793659260000, tza = 0\<rparr> ''01/01/2031 9:00am''
     = \<lparr>isValid = True, delayMs = 131365140000, timestamp = 1925024400000, error = None,
        originalInput = ''01/01/2031 9:00am''\<rparr>
   \<and> parseDateTime \<lparr>now = 1793659260000, tza = 0\<rparr> ''1/1/2020 9:00am''
     = \<lparr>isValid = False, delayMs = 0, timestamp = 1793659260000,
        error = Some ''Date is in the past'', originalInput = ''1/1/2020 9:00am''\<rparr>"
  by code_simp

section \<open>Cancelling a reminder\<close>

text \<open>
  Claim C7, as the code has it. \<open>cancelReminder\<close> returns true exactly when \<open>getJob\<close> finds
  a job under the id and the job's \<open>remove\<close> completes, and the queue is then the one that
  \<open>remove\<close> leaves; it does not look at the status of the job. It returns false, with
  the queue unchanged, when no job is found, and equally when \<open>getJob\<close> or \<open>remove\<close>
  throws.
\<close>

theorem cancelReminder_result:
  "fst (cancelReminder getJob remove q jid)
     = (\<exists>job q'. getJob q jid = Inr (Some job) \<and> remove q job = Inr q')
   \<and> (getJob q jid = Inr None \<longrightarrow> cancelReminder getJob remove q jid = (False, q))
   \<and> (\<forall>err. getJob q jid = Inl err \<longrightarrow> cancelReminder getJob remove q jid = (False, q))
   \<and> (\<forall>job err. getJob q jid = Inr (Some job) \<and> remove q job = Inl err \<longrightarrow>
         cancelReminder getJob remove q jid = (False, q))
   \<and> (\<forall>job q'. getJob q jid = Inr (Some job) \<and> remove q job = Inr q' \<longrightarrow>
         cancelReminder getJob remove q jid = (True, q'))"
  by (auto simp add: cancelReminder_def split: sum.splits option.splits)

text \<open>
  Claim C7 as stated says that a failure of the backing store is never reported as the
  false that means "no such job". With an unreachable store, cancelling an existing job
  returns false and leaves the job, just as cancelling an unknown id does.
\<close>

theorem cancelReminder_store_failure_is_false:
  "cancelReminder unreachable_getJob list_remove
      [\<lparr>name = ''reminder'', id' = ''remind-7-1793659200000'', data = (),
        opts = \<lparr>delay = Some 30000, priority = Some 0,
                 jobId = Some ''remind-7-1793659200000'', attempts = None\<rparr>\<rparr>]
      ''remind-7-1793659200000''
     = (False,
        [\<lparr>name = ''reminder'', id' = ''remind-7-1793659200000'', data = (),
          opts = \<lparr>delay = Some 30000, priority = Some 0,
                   jobId = Some ''remind-7-1793659200000'', attempts = None\<rparr>\<rparr>])
   \<and> fst (cancelReminder unreachable_getJob list_remove
      [\<lparr>name = ''reminder'', id' = ''remind-7-1793659200000'', data = (),
        opts = \<lparr>delay = Some 30000, priority = Some 0,
                 jobId = Some ''remind-7-1793659200000'', attempts = None\<rparr>\<rparr>]
      ''remind-7-1793659200000'')
     = fst (cancelReminder list_getJob list_remove ([] :: unit Job list) ''remind-7-1793659200000'')"
  by (simp add: cancelReminder_def unreachable_getJob_def list_getJob_def)


theorem cancelReminder_result_witness:
  "cancelReminder list_getJob list_remove
      [\<lparr>name = ''reminder'', id' = ''remind-7-1793659200000'', data = (),
        opts = \<lparr>delay = Some 30000, priority = Some 0,
                 jobId = Some ''remind-7-1793659200000'', attempts = None\<rparr>\<rparr>]
      ''remind-7-1793659200000'' = (True, [])
   \<and> cancelReminder list_getJob list_remove ([] :: unit Job list) ''remind-7-1793659200000''
      = (False, [])
   \<and> cancelReminder unreachable_getJob list_remove ([] :: unit Job list)
        ''remind-7-1793659200000'' = (False, [])"
proof -
  let ?j = "\<lparr>name = ''reminder'', id' = ''remind-7-1793659200000'', data = (),
        opts = \<lparr>delay = Some 30000, priority = Some 0,
                 jobId = Some ''remind-7-1793659200000'', attempts = None\<rparr>\<rparr>"
  note w1 = cancelReminder_result [of list_getJob list_remove "[?j]" "''remind-7-1793659200000''"]
  note w2 = cancelReminder_result [of list_getJob list_remove "[] :: unit Job list"
      "''remind-7-1793659200000''"]
  note w3 = cancelReminder_result [of unreachable_getJob list_remove "[] :: unit Job list"
      "''remind-7-1793659200000''"]
  have g1: "list_getJob [?j] ''remind-7-1793659200000'' = Inr (Some ?j)"
    by (simp add: list_getJob_def)
  have r1: "list_remove [?j] ?j = Inr []"
    by (simp add: list_remove_def)
  have g2: "list_getJob ([] :: unit Job list) ''remind-7-1793659200000'' = Inr None"
    by (simp add: list_getJob_def)
  have g3: "unreachable_getJob ([] :: unit Job list) ''remind-7-1793659200000''
      = Inl (Error ''connect ECONNREFUSED 127.0.0.1:6379'')"
    by (simp add: unreachable_getJob_def)
  from w1 g1 r1 have "cancelReminder list_getJob list_remove [?j] ''remind-7-1793659200000''
      = (True, [])"
    by blast
  moreover from w2 g2 have "cancelReminder list_getJob list_remove ([] :: unit Job list)
      ''remind-7-1793659200000'' = (False, [])"
    by blast
  moreover from w3 g3 have "cancelReminder unreachable_getJob list_remove ([] :: unit Job list)
      ''remind-7-1793659200000'' = (False, [])"
    by blast
  ultimately show ?thesis by blast
qed

end
